theory Spec2Isabelle
  imports Main
begin

section \<open>Python values\<close>

text \<open>
  The values that travel through \<^verbatim>\<open>odata/entity.py\<close>: what a raw-data mapping holds
  and what the entity state stores. Floats are left out. A Python \<^verbatim>\<open>dict\<close> with string
  keys that occurs as a value is an association list in insertion order.
\<close>

datatype pyval =
    PNone
  | PBool bool
  | PInt int
  | PStr string
  | PList "pyval list"
  | PDict "(string \<times> pyval) list"

text \<open>Python truth value testing, as used by \<^verbatim>\<open>if value:\<close> and \<^verbatim>\<open>if my_id:\<close>.\<close>

primrec truthy :: "pyval \<Rightarrow> bool" where
  "truthy PNone = False"
| "truthy (PBool b) = b"
| "truthy (PInt i) = (i \<noteq> 0)"
| "truthy (PStr s) = (s \<noteq> [])"
| "truthy (PList xs) = (xs \<noteq> [])"
| "truthy (PDict kvs) = (kvs \<noteq> [])"

text \<open>
  Python \<^verbatim>\<open>==\<close> on these values: \<^verbatim>\<open>bool\<close> is a subclass of \<^verbatim>\<open>int\<close>
  (\<^verbatim>\<open>True == 1\<close>), lists compare elementwise, dicts compare by key.
\<close>

primrec py_eq :: "pyval \<Rightarrow> pyval \<Rightarrow> bool" where
  "py_eq PNone w = (w = PNone)"
| "py_eq (PBool b) w =
     (case w of PBool c \<Rightarrow> b = c | PInt j \<Rightarrow> of_bool b = j | _ \<Rightarrow> False)"
| "py_eq (PInt i) w =
     (case w of PBool c \<Rightarrow> i = of_bool c | PInt j \<Rightarrow> i = j | _ \<Rightarrow> False)"
| "py_eq (PStr s) w = (w = PStr s)"
| "py_eq (PList xs) w =
     (case w of
        PList ys \<Rightarrow> list_all2 (\<lambda>f y. f y) (map py_eq xs) ys
      | _ \<Rightarrow> False)"
| "py_eq (PDict kvs) w =
     (case w of
        PDict lws \<Rightarrow>
          length kvs = length lws \<and>
          list_all (\<lambda>(k, f). case map_of lws k of None \<Rightarrow> False | Some y \<Rightarrow> f y)
            (map (map_prod id py_eq) kvs)
      | _ \<Rightarrow> False)"

text \<open>
  The raw-data mapping handed to the constructor (\<^verbatim>\<open>from_data\<close>) is a Python dict from
  wire names to values. \<^verbatim>\<open>raw_data.get(k)\<close> has the default \<^verbatim>\<open>None\<close>;
  \<^verbatim>\<open>k in raw_data\<close> is \<open>raw_data k \<noteq> None\<close> and \<^verbatim>\<open>raw_data.pop(k)\<close> on a
  present key leaves \<open>raw_data(k := None)\<close>.
\<close>

type_synonym pydict = "string \<rightharpoonup> pyval"

definition dict_get :: "pydict \<Rightarrow> string \<Rightarrow> pyval" where
  "dict_get d k = (case d k of None \<Rightarrow> PNone | Some v \<Rightarrow> v)"

datatype error = KeyError string

section \<open>Collaborators of the entity layer\<close>

text \<open>
  Property descriptors live in \<^verbatim>\<open>odata/property.py\<close>, which is not part of the sources at
  hand; \<^verbatim>\<open>entity.py\<close> uses only the attributes below, so a descriptor is a record of
  them and its methods are fields. \<open>escape_value\<close> stands for the key property's escape routine
  followed by the string formatting of \<^verbatim>\<open>'{1}'.format(...)\<close>; \<open>instances_from_data\<close>
  returns an entity or a sequence of entities, a value of the parameter type \<open>'e\<close>.
\<close>

record property_base =
  name :: string

record property = property_base +
  primary_key :: bool
  escape_value :: "pyval \<Rightarrow> string"

record 'e navigation_property = property_base +
  is_collection :: bool
  instances_from_data :: "pyval \<Rightarrow> 'e"

datatype 'e descriptor =
    ValueProperty property
  | NavigationProperty "'e navigation_property"

text \<open>
  An entity class: \<^verbatim>\<open>__name__\<close>, the three class attributes of \<^verbatim>\<open>EntityBase\<close> and the
  declared descriptors (attribute name and descriptor) in declaration order.
\<close>

record 'e entity_class =
  class_name :: string
  odata_url_base :: string
  odata_collection :: string
  odata_type :: string
  declared_properties :: "(string \<times> 'e descriptor) list"

text \<open>
  Modelled from the spec: \<^verbatim>\<open>EntityState\<close> (\<^verbatim>\<open>odata/state.py\<close>, imported by
  \<^verbatim>\<open>entity.py\<close> and not among the sources). Per instance it holds the field values by
  wire name, the set of dirty field names and the navigation cache; a cache entry is the one-key
  dict \<^verbatim>\<open>dict(single=...)\<close> or \<^verbatim>\<open>dict(collection=...)\<close>.
\<close>

record 'e entity_state =
  field_values :: "string \<rightharpoonup> pyval"
  dirty :: "string set"
  nav_cache :: "string \<rightharpoonup> (string \<rightharpoonup> 'e)"

text \<open>An instance: its class (\<^verbatim>\<open>self.__class__\<close>) and its state (\<^verbatim>\<open>self.__odata__\<close>).\<close>

record 'e entity =
  cls :: "'e entity_class"
  odata :: "'e entity_state"

text \<open>
  Modelled from the spec: \<^verbatim>\<open>EntityState.__init__\<close>: a fresh state has no value, no dirty
  field and an empty navigation cache.
\<close>

definition EntityState_init :: "'e entity_state" where
  "EntityState_init = \<lparr>field_values = Map.empty, dirty = {}, nav_cache = Map.empty\<rparr>"

text \<open>
  Modelled from the spec: \<^verbatim>\<open>EntityState.__setitem__\<close> and \<^verbatim>\<open>__getitem__\<close>, the keyed
  write and read of the field values. A write at this level is not an attribute assignment through
  a descriptor, so it marks nothing dirty; reading a key that was never written raises
  \<^verbatim>\<open>KeyError\<close>.
\<close>

definition EntityState_setitem :: "'e entity_state \<Rightarrow> string \<Rightarrow> pyval \<Rightarrow> 'e entity_state" where
  "EntityState_setitem es key v = es\<lparr>field_values := (field_values es)(key \<mapsto> v)\<rparr>"

definition EntityState_getitem :: "'e entity_state \<Rightarrow> string \<Rightarrow> error + pyval" where
  "EntityState_getitem es key =
     (case field_values es key of None \<Rightarrow> Inl (KeyError key) | Some v \<Rightarrow> Inr v)"

text \<open>
  Modelled from the spec: \<^verbatim>\<open>EntityState.properties\<close> and
  \<^verbatim>\<open>EntityState.navigation_properties\<close> enumerate the declared value properties and the
  declared navigation properties of the owner's class, in declaration order, as pairs of
  attribute name and descriptor.
\<close>

fun value_descriptors :: "(string \<times> 'e descriptor) list \<Rightarrow> (string \<times> property) list" where
  "value_descriptors [] = []"
| "value_descriptors ((prop_name, ValueProperty prop) # ds) = (prop_name, prop) # value_descriptors ds"
| "value_descriptors ((prop_name, NavigationProperty prop) # ds) = value_descriptors ds"

fun navigation_descriptors ::
  "(string \<times> 'e descriptor) list \<Rightarrow> (string \<times> 'e navigation_property) list" where
  "navigation_descriptors [] = []"
| "navigation_descriptors ((prop_name, ValueProperty prop) # ds) = navigation_descriptors ds"
| "navigation_descriptors ((prop_name, NavigationProperty prop) # ds) =
     (prop_name, prop) # navigation_descriptors ds"

definition properties :: "'e entity_class \<Rightarrow> (string \<times> property) list" where
  "properties c = value_descriptors (declared_properties c)"

definition navigation_properties :: "'e entity_class \<Rightarrow> (string \<times> 'e navigation_property) list" where
  "navigation_properties c = navigation_descriptors (declared_properties c)"

text \<open>
  Modelled from the spec: \<^verbatim>\<open>EntityState.primary_key_property\<close> locates the declared
  primary-key property, name and descriptor; \<open>None\<close> is the sentinel for "none declared".
\<close>

definition primary_key_property :: "'e entity_class \<Rightarrow> (string \<times> property) option" where
  "primary_key_property c =
     find (\<lambda>(prop_name, prop). primary_key prop) (properties c)"

text \<open>
  Modelled from the spec: \<^verbatim>\<open>EntityState.id\<close>, the instance's primary-key value;
  \<^verbatim>\<open>None\<close> when the class declares no primary key or the key has no value.
\<close>

definition EntityState_id :: "'e entity \<Rightarrow> pyval" where
  "EntityState_id e =
     (case primary_key_property (cls e) of
        None \<Rightarrow> PNone
      | Some (prop_name, prop) \<Rightarrow> dict_get (field_values (odata e)) (name prop))"

section \<open>EntityBase\<close>

text \<open>
  \<^verbatim>\<open>__odata_url__\<close> (lines 77--80) returns \<^verbatim>\<open>urljoin(cls.__odata_url_base__,
  cls.__odata_collection__)\<close>. \<^verbatim>\<open>urljoin\<close> comes from the Python standard library and is
  a parameter here; the join modelled below is put in for it.
\<close>

definition EntityBase_odata_url :: "(string \<Rightarrow> string \<Rightarrow> string) \<Rightarrow> 'e entity_class \<Rightarrow> string" where
  "EntityBase_odata_url urljoin c = urljoin (odata_url_base c) (odata_collection c)"

text \<open>
  The first loop of \<^verbatim>\<open>__new__\<close> (lines 90--96), over the navigation properties: a wire
  name found in the raw data is popped from it, and its converted payload is cached. The raw
  mapping is the caller's own dict, so the loop returns it as it leaves it.
\<close>

fun expand_loop ::
  "(string \<times> 'e navigation_property) list \<Rightarrow> pydict \<Rightarrow> 'e entity_state \<Rightarrow> pydict \<times> 'e entity_state" where
  "expand_loop [] raw_data es = (raw_data, es)"
| "expand_loop ((prop_name, prop) # ps) raw_data es =
     (case raw_data (name prop) of
        None \<Rightarrow> expand_loop ps raw_data es
      | Some expanded_data \<Rightarrow>
          expand_loop ps (raw_data(name prop := None))
            (if is_collection prop
             then es\<lparr>nav_cache := (nav_cache es)
                    (name prop \<mapsto> [''collection'' \<mapsto> instances_from_data prop expanded_data])\<rparr>
             else es\<lparr>nav_cache := (nav_cache es)
                    (name prop \<mapsto> [''single'' \<mapsto> instances_from_data prop expanded_data])\<rparr>))"

text \<open>The second loop (lines 98--99): every value property is read with \<^verbatim>\<open>raw_data.get\<close>.\<close>

fun from_data_loop :: "(string \<times> property) list \<Rightarrow> pydict \<Rightarrow> 'e entity_state \<Rightarrow> 'e entity_state" where
  "from_data_loop [] raw_data es = es"
| "from_data_loop ((prop_name, prop) # ps) raw_data es =
     from_data_loop ps raw_data (EntityState_setitem es (name prop) (dict_get raw_data (name prop)))"

text \<open>The loop of the \<^verbatim>\<open>else\<close> branch (lines 101--102): every value property is \<^verbatim>\<open>None\<close>.\<close>

fun none_loop :: "(string \<times> property) list \<Rightarrow> 'e entity_state \<Rightarrow> 'e entity_state" where
  "none_loop [] es = es"
| "none_loop ((prop_name, prop) # ps) es = none_loop ps (EntityState_setitem es (name prop) PNone)"

text \<open>
  \<^verbatim>\<open>__new__\<close> (lines 82--104). The keyword \<^verbatim>\<open>from_data\<close> is an option: \<open>None\<close> when
  the caller does not pass it. The result is the instance together with the caller's mapping as
  construction leaves it.
\<close>

definition EntityBase_new :: "'e entity_class \<Rightarrow> pydict option \<Rightarrow> 'e entity \<times> pydict option" where
  "EntityBase_new c from_data =
     (let es = EntityState_init in
      case from_data of
        Some raw_data \<Rightarrow>
          (case expand_loop (navigation_properties c) raw_data es of
             (raw_data', es') \<Rightarrow>
               (\<lparr>cls = c, odata = from_data_loop (properties c) raw_data' es'\<rparr>,
                Some raw_data'))
      | None \<Rightarrow> (\<lparr>cls = c, odata = none_loop (properties c) es\<rparr>, None))"

text \<open>\<^verbatim>\<open>__repr__\<close> (lines 106--113).\<close>

definition EntityBase_repr :: "'e entity \<Rightarrow> error + string" where
  "EntityBase_repr self =
     (let clsname = class_name (cls self) in
      case primary_key_property (cls self) of
        Some (prop_name, prop) \<Rightarrow>
          (case EntityState_getitem (odata self) (name prop) of
             Inl err \<Rightarrow> Inl err
           | Inr v \<Rightarrow>
               if truthy v
               then Inr (''<Entity('' @ clsname @ '':'' @ escape_value prop v @ '')>'')
               else Inr (''<Entity('' @ clsname @ '')>''))
      | None \<Rightarrow> Inr (''<Entity('' @ clsname @ '')>''))"

text \<open>
  \<^verbatim>\<open>__eq__\<close> (lines 115--120). The right operand is any Python object: an instance of
  \<^verbatim>\<open>EntityBase\<close> or some other value.
\<close>

datatype 'e pyobject =
    Instance "'e entity"
  | Value pyval

definition EntityBase_eq :: "'e entity \<Rightarrow> 'e pyobject \<Rightarrow> bool" where
  "EntityBase_eq self other =
     (case other of
        Instance other_entity \<Rightarrow>
          (let my_id = EntityState_id self in
           if truthy my_id then py_eq my_id (EntityState_id other_entity) else False)
      | Value v \<Rightarrow> False)"

section \<open>Joining URLs\<close>

text \<open>
  Modelled from the spec: \<^verbatim>\<open>urljoin\<close>, which \<^verbatim>\<open>entity.py\<close> imports from the Python
  standard library (\<^verbatim>\<open>urllib.parse\<close>, or \<^verbatim>\<open>urlparse\<close>); it is no code of the
  repository. The spec asks for the standard hierarchical join of a base and a relative or absolute
  reference, which is reference resolution as RFC 3986 defines it: a URL is split into scheme,
  network location, path, query and fragment (appendix B), the reference is resolved against the
  base (section 5.2.2, with the merge of 5.2.3 and the removal of dot segments of 5.2.4) and the
  result is put together again (section 5.3). A component that is not there is \<open>None\<close>.
\<close>

record url_parts =
  scheme :: "string option"
  netloc :: "string option"
  path :: string
  query :: "string option"
  fragment :: "string option"

definition urlsplit :: "string \<Rightarrow> url_parts" where
  "urlsplit url =
     (let pre = takeWhile (\<lambda>c. c \<notin> set '':/?#'') url;
          after_pre = dropWhile (\<lambda>c. c \<notin> set '':/?#'') url;
          has_scheme = (pre \<noteq> [] \<and> take 1 after_pre = '':'');
          s1 = (if has_scheme then drop 1 after_pre else url);
          has_netloc = (take 2 s1 = ''//'');
          s2 = (if has_netloc then dropWhile (\<lambda>c. c \<notin> set ''/?#'') (drop 2 s1) else s1);
          s3 = dropWhile (\<lambda>c. c \<notin> set ''?#'') s2;
          has_query = (take 1 s3 = ''?'');
          s4 = (if has_query then dropWhile (\<lambda>c. c \<noteq> CHR ''#'') (drop 1 s3) else s3)
      in \<lparr>scheme = (if has_scheme then Some pre else None),
          netloc =
            (if has_netloc then Some (takeWhile (\<lambda>c. c \<notin> set ''/?#'') (drop 2 s1)) else None),
          path = takeWhile (\<lambda>c. c \<notin> set ''?#'') s2,
          query =
            (if has_query then Some (takeWhile (\<lambda>c. c \<noteq> CHR ''#'') (drop 1 s3)) else None),
          fragment = (if take 1 s4 = ''#'' then Some (drop 1 s4) else None)\<rparr>)"

definition urlunsplit :: "url_parts \<Rightarrow> string" where
  "urlunsplit u =
     (case scheme u of None \<Rightarrow> [] | Some s \<Rightarrow> s @ '':'')
     @ (case netloc u of None \<Rightarrow> [] | Some a \<Rightarrow> ''//'' @ a)
     @ path u
     @ (case query u of None \<Rightarrow> [] | Some q \<Rightarrow> ''?'' @ q)
     @ (case fragment u of None \<Rightarrow> [] | Some f \<Rightarrow> ''#'' @ f)"

text \<open>
  The removal of dot segments works on an input buffer and the list of the segments put out so
  far; a segment carries the slash in front of it.
\<close>

function remove_dots :: "string \<Rightarrow> string list \<Rightarrow> string" where
  "remove_dots inp out =
     (if inp = [] then concat out
      else if take 3 inp = ''../'' then remove_dots (drop 3 inp) out
      else if take 2 inp = ''./'' then remove_dots (drop 2 inp) out
      else if take 3 inp = ''/./'' then remove_dots (drop 2 inp) out
      else if inp = ''/.'' then remove_dots ''/'' out
      else if take 4 inp = ''/../'' then remove_dots (drop 3 inp) (butlast out)
      else if inp = ''/..'' then remove_dots ''/'' (butlast out)
      else if inp = ''.'' \<or> inp = ''..'' then remove_dots [] out
      else remove_dots (dropWhile (\<lambda>c. c \<noteq> CHR ''/'') (tl inp))
             (out @ [hd inp # takeWhile (\<lambda>c. c \<noteq> CHR ''/'') (tl inp)]))"
  by pat_completeness auto
termination
proof (relation "measure (\<lambda>(inp, out). length inp)")
  show "wf (measure (\<lambda>(inp, out). length inp))" by simp
next
  fix inp :: string and out :: "string list"
  assume "inp \<noteq> []"
  then have "length (dropWhile (\<lambda>c. c \<noteq> CHR ''/'') (tl inp)) < length inp"
    using length_dropWhile_le [of "\<lambda>c. c \<noteq> CHR ''/''" "tl inp"] by (cases inp) simp_all
  then show "((dropWhile (\<lambda>c. c \<noteq> CHR ''/'') (tl inp),
               out @ [hd inp # takeWhile (\<lambda>c. c \<noteq> CHR ''/'') (tl inp)]), inp, out)
             \<in> measure (\<lambda>(inp, out). length inp)"
    by simp
qed auto

definition remove_dot_segments :: "string \<Rightarrow> string" where
  "remove_dot_segments p = remove_dots p []"

text \<open>The merge of a relative path with the path of the base.\<close>

definition merge_paths :: "url_parts \<Rightarrow> string \<Rightarrow> string" where
  "merge_paths b p =
     (if netloc b \<noteq> None \<and> path b = [] then ''/'' @ p
      else rev (dropWhile (\<lambda>c. c \<noteq> CHR ''/'') (rev (path b))) @ p)"

definition resolve :: "url_parts \<Rightarrow> url_parts \<Rightarrow> url_parts" where
  "resolve b r =
     (if scheme r \<noteq> None then
        \<lparr>scheme = scheme r, netloc = netloc r, path = remove_dot_segments (path r),
         query = query r, fragment = fragment r\<rparr>
      else if netloc r \<noteq> None then
        \<lparr>scheme = scheme b, netloc = netloc r, path = remove_dot_segments (path r),
         query = query r, fragment = fragment r\<rparr>
      else if path r = [] then
        \<lparr>scheme = scheme b, netloc = netloc b, path = path b,
         query = (if query r \<noteq> None then query r else query b), fragment = fragment r\<rparr>
      else if take 1 (path r) = ''/'' then
        \<lparr>scheme = scheme b, netloc = netloc b, path = remove_dot_segments (path r),
         query = query r, fragment = fragment r\<rparr>
      else
        \<lparr>scheme = scheme b, netloc = netloc b,
         path = remove_dot_segments (merge_paths b (path r)),
         query = query r, fragment = fragment r\<rparr>)"

definition urljoin :: "string \<Rightarrow> string \<Rightarrow> string" where
  "urljoin base url = urlunsplit (resolve (urlsplit base) (urlsplit url))"

section \<open>Example declarations\<close>

text \<open>
  The escape routine of the example descriptors: an integer in decimal, a string as it is.
\<close>

fun decimal :: "nat \<Rightarrow> string" where
  "decimal n =
     (if n < 10 then [''0123456789'' ! n]
      else decimal (n div 10) @ [''0123456789'' ! (n mod 10)])"

definition render :: "pyval \<Rightarrow> string" where
  "render v =
     (case v of
        PInt i \<Rightarrow> (if i < 0 then ''-'' @ decimal (nat (- i)) else decimal (nat i))
      | PStr s \<Rightarrow> s
      | _ \<Rightarrow> [])"

text \<open>
  The class \<^verbatim>\<open>Product\<close> of the module docstring (\<^verbatim>\<open>id = IntegerProperty('Id',
  primary_key=True)\<close>, \<^verbatim>\<open>name = StringProperty('ProductName')\<close>), with a collection-valued
  and a single-valued navigation property added. The converters of the navigation properties hand
  the payload on as it is.
\<close>

definition Product :: "pyval entity_class" where
  "Product =
     \<lparr>class_name = ''Product'',
      odata_url_base = ''https://svc/'',
      odata_collection = ''Products'',
      odata_type = ''ProductDataService.Objects.Product'',
      declared_properties =
        [(''id'', ValueProperty \<lparr>name = ''Id'', primary_key = True, escape_value = render\<rparr>),
         (''name'',
            ValueProperty \<lparr>name = ''ProductName'', primary_key = False, escape_value = render\<rparr>),
         (''orders'', NavigationProperty
            \<lparr>name = ''Orders'', is_collection = True, instances_from_data = (\<lambda>d. d)\<rparr>),
         (''supplier'', NavigationProperty
            \<lparr>name = ''Supplier'', is_collection = False, instances_from_data = (\<lambda>d. d)\<rparr>)]\<rparr>"

text \<open>A class that declares no primary key, with the class attributes of \<^verbatim>\<open>EntityBase\<close>.\<close>

definition Note :: "pyval entity_class" where
  "Note =
     \<lparr>class_name = ''Note'',
      odata_url_base = [],
      odata_collection = ''Entities'',
      odata_type = ''ODataSchema.Entity'',
      declared_properties =
        [(''text'', ValueProperty \<lparr>name = ''Text'', primary_key = False, escape_value = render\<rparr>)]\<rparr>"

text \<open>
  A class whose two navigation properties carry the same wire name, the first a collection, the
  second single-valued.
\<close>

definition Basket :: "pyval entity_class" where
  "Basket =
     \<lparr>class_name = ''Basket'',
      odata_url_base = [],
      odata_collection = ''Baskets'',
      odata_type = ''ODataSchema.Basket'',
      declared_properties =
        [(''items'', NavigationProperty
            \<lparr>name = ''Items'', is_collection = True, instances_from_data = (\<lambda>d. d)\<rparr>),
         (''first_item'', NavigationProperty
            \<lparr>name = ''Items'', is_collection = False, instances_from_data = (\<lambda>d. d)\<rparr>)]\<rparr>"

text \<open>A class whose collection name is an absolute URL on another host.\<close>

definition Mirror :: "pyval entity_class" where
  "Mirror =
     \<lparr>class_name = ''Mirror'',
      odata_url_base = ''https://svc/odata/'',
      odata_collection = ''https://mirror/v4/Products'',
      odata_type = ''ODataSchema.Entity'',
      declared_properties = []\<rparr>"

text \<open>
  A class whose value property \<^verbatim>\<open>order_count\<close> and navigation property \<^verbatim>\<open>orders\<close>
  carry the same wire name.
\<close>

definition Ledger :: "pyval entity_class" where
  "Ledger =
     \<lparr>class_name = ''Ledger'',
      odata_url_base = [],
      odata_collection = ''Ledgers'',
      odata_type = ''ODataSchema.Ledger'',
      declared_properties =
        [(''order_count'',
            ValueProperty \<lparr>name = ''Orders'', primary_key = False, escape_value = render\<rparr>),
         (''orders'', NavigationProperty
            \<lparr>name = ''Orders'', is_collection = True, instances_from_data = (\<lambda>d. d)\<rparr>)]\<rparr>"

text \<open>
  A class whose collection-valued navigation property has a converter that returns the elements
  of a list payload in reverse.
\<close>

definition Playlist :: "pyval entity_class" where
  "Playlist =
     \<lparr>class_name = ''Playlist'',
      odata_url_base = [],
      odata_collection = ''Playlists'',
      odata_type = ''ODataSchema.Playlist'',
      declared_properties =
        [(''tracks'', NavigationProperty
            \<lparr>name = ''Tracks'', is_collection = True,
             instances_from_data = (\<lambda>d. case d of PList xs \<Rightarrow> PList (rev xs) | _ \<Rightarrow> d)\<rparr>)]\<rparr>"

text \<open>A response for one product, with both relations expanded and one undeclared field.\<close>

definition product_data :: pydict where
  "product_data =
     [''Id'' \<mapsto> PInt 7,
      ''Orders'' \<mapsto> PList [PDict [(''Id'', PInt 1)], PDict [(''Id'', PInt 2)]],
      ''Supplier'' \<mapsto> PDict [(''Id'', PInt 3)],
      ''Extra'' \<mapsto> PStr ''x'']"

section \<open>The loops of the constructor\<close>

lemmas example_defs =
  Product_def Note_def Basket_def Mirror_def Ledger_def Playlist_def product_data_def render_def
  properties_def navigation_properties_def primary_key_property_def
  EntityBase_new_def EntityState_init_def EntityState_setitem_def EntityState_getitem_def
  EntityState_id_def dict_get_def

lemma expand_loop_step:
  "expand_loop ((n, p) # ps) raw_data es =
     (case raw_data (name p) of
        None \<Rightarrow> expand_loop ps raw_data es
      | Some d \<Rightarrow>
          expand_loop ps (raw_data(name p := None))
            (es\<lparr>nav_cache := (nav_cache es)
               (name p \<mapsto>
                  (if is_collection p then [''collection'' \<mapsto> instances_from_data p d]
                   else [''single'' \<mapsto> instances_from_data p d]))\<rparr>))"
  by (simp split: option.splits)

lemma expand_loop_raw:
  "fst (expand_loop ps raw_data es) k =
     (if k \<in> name ` snd ` set ps then None else raw_data k)"
proof (induction ps arbitrary: raw_data es k)
  case Nil
  show ?case by simp
next
  case (Cons a ps)
  obtain n p where a: "a = (n, p)" by (cases a)
  show ?case unfolding a expand_loop_step
    by (simp add: Cons.IH split: option.splits)
qed

lemma expand_loop_raw_fun:
  "fst (expand_loop ps raw_data es) =
     (\<lambda>k. if k \<in> name ` snd ` set ps then None else raw_data k)"
  by (rule ext) (simp add: expand_loop_raw)

lemma expand_loop_values:
  "field_values (snd (expand_loop ps raw_data es)) = field_values es"
proof (induction ps arbitrary: raw_data es)
  case Nil
  show ?case by simp
next
  case (Cons a ps)
  obtain n p where a: "a = (n, p)" by (cases a)
  show ?case unfolding a expand_loop_step
    by (simp add: Cons.IH split: option.splits)
qed

lemma expand_loop_dirty:
  "dirty (snd (expand_loop ps raw_data es)) = dirty es"
proof (induction ps arbitrary: raw_data es)
  case Nil
  show ?case by simp
next
  case (Cons a ps)
  obtain n p where a: "a = (n, p)" by (cases a)
  show ?case unfolding a expand_loop_step
    by (simp add: Cons.IH split: option.splits)
qed



lemma from_data_loop_values:
  "field_values (from_data_loop ps raw_data es) k =
     (if k \<in> name ` snd ` set ps then Some (dict_get raw_data k) else field_values es k)"
  by (induction ps raw_data es rule: from_data_loop.induct)
    (simp_all add: EntityState_setitem_def)

lemma from_data_loop_dirty: "dirty (from_data_loop ps raw_data es) = dirty es"
  by (induction ps raw_data es rule: from_data_loop.induct)
    (simp_all add: EntityState_setitem_def)


lemma none_loop_values:
  "field_values (none_loop ps es) k =
     (if k \<in> name ` snd ` set ps then Some PNone else field_values es k)"
  by (induction ps es rule: none_loop.induct) (simp_all add: EntityState_setitem_def)

lemma none_loop_dirty: "dirty (none_loop ps es) = dirty es"
  by (induction ps es rule: none_loop.induct) (simp_all add: EntityState_setitem_def)

lemma none_loop_cache: "nav_cache (none_loop ps es) = nav_cache es"
  by (induction ps es rule: none_loop.induct) (simp_all add: EntityState_setitem_def)

section \<open>The constructor\<close>

lemma new_from_data:
  "EntityBase_new c (Some raw_data) =
     (\<lparr>cls = c,
       odata = from_data_loop (properties c)
                 (fst (expand_loop (navigation_properties c) raw_data EntityState_init))
                 (snd (expand_loop (navigation_properties c) raw_data EntityState_init))\<rparr>,
      Some (fst (expand_loop (navigation_properties c) raw_data EntityState_init)))"
  by (simp add: EntityBase_new_def split: prod.splits)

lemma new_no_data:
  "EntityBase_new c None =
     (\<lparr>cls = c, odata = none_loop (properties c) EntityState_init\<rparr>, None)"
  by (simp add: EntityBase_new_def)

lemma wire_name_declared: "(prop_name, prop) \<in> set ps \<Longrightarrow> name prop \<in> name ` snd ` set ps"
  by force


lemma py_eq_truthy: "py_eq v w \<Longrightarrow> truthy v \<Longrightarrow> truthy w"
  by (cases v; cases w) auto

lemma new_values:
  "field_values (odata (fst (EntityBase_new c (Some raw_data)))) k =
     (if k \<in> name ` snd ` set (properties c)
      then Some (dict_get
             (\<lambda>k. if k \<in> name ` snd ` set (navigation_properties c) then None else raw_data k) k)
      else None)"
  by (simp add: new_from_data from_data_loop_values expand_loop_values expand_loop_raw_fun
      EntityState_init_def)

lemma new_no_data_values:
  "field_values (odata (fst (EntityBase_new c None))) k =
     (if k \<in> name ` snd ` set (properties c) then Some PNone else None)"
  by (simp add: new_no_data none_loop_values EntityState_init_def)


lemma primary_key_declared:
  "primary_key_property c = Some (n, p) \<Longrightarrow> (n, p) \<in> set (properties c)"
  unfolding primary_key_property_def find_Some_iff by (metis nth_mem)

lemma new_has_key_value:
  assumes "primary_key_property c = Some (n, p)"
  shows "\<exists>v. field_values (odata (fst (EntityBase_new c from_data))) (name p) = Some v"
proof -
  have "name p \<in> name ` snd ` set (properties c)"
    using assms by (intro wire_name_declared primary_key_declared)
  then show ?thesis
    by (cases from_data) (simp_all add: new_values new_no_data_values)
qed

section \<open>Hydration\<close>

text \<open>
  C2, as amended. Construction from a raw-data mapping stores, for every declared value property,
  the value that \<^verbatim>\<open>get\<close> reads under the property's wire name in the mapping from which
  the keys of the navigation properties have been popped, with \<^verbatim>\<open>None\<close> for an absent key.
  So a field whose wire name is not also the wire name of a declared navigation property holds the
  raw mapping's value, a field whose wire name is also the wire name of a declared navigation
  property holds \<^verbatim>\<open>None\<close>, a field missing from the raw data holds \<^verbatim>\<open>None\<close> and
  construction does not fail, and under the wire name of a navigation property the state holds no
  value or \<^verbatim>\<open>None\<close>, never the payload.
\<close>

theorem hydration_reads_stripped_mapping:
  assumes "(prop_name, prop) \<in> set (properties c)"
  shows "field_values (odata (fst (EntityBase_new c (Some raw_data)))) (name prop) =
           Some (dict_get
             (\<lambda>k. if k \<in> name ` snd ` set (navigation_properties c) then None else raw_data k)
             (name prop))
       \<and> (name prop \<notin> name ` snd ` set (navigation_properties c) \<longrightarrow>
            field_values (odata (fst (EntityBase_new c (Some raw_data)))) (name prop) =
              Some (dict_get raw_data (name prop)))
       \<and> (name prop \<in> name ` snd ` set (navigation_properties c) \<longrightarrow>
            field_values (odata (fst (EntityBase_new c (Some raw_data)))) (name prop) = Some PNone)
       \<and> (raw_data (name prop) = None \<longrightarrow>
            field_values (odata (fst (EntityBase_new c (Some raw_data)))) (name prop) = Some PNone)
       \<and> (\<forall>k \<in> name ` snd ` set (navigation_properties c).
            field_values (odata (fst (EntityBase_new c (Some raw_data)))) k = None \<or>
            field_values (odata (fst (EntityBase_new c (Some raw_data)))) k = Some PNone)"
proof -
  have "name prop \<in> name ` snd ` set (properties c)"
    using assms by (rule wire_name_declared)
  then show ?thesis
    by (simp add: new_values dict_get_def)
qed

theorem hydration_reads_stripped_mapping_witness:
  "(''id'', \<lparr>name = ''Id'', primary_key = True, escape_value = render\<rparr>) \<in> set (properties Product)
   \<and> (''name'', \<lparr>name = ''ProductName'', primary_key = False, escape_value = render\<rparr>)
        \<in> set (properties Product)
   \<and> (''order_count'', \<lparr>name = ''Orders'', primary_key = False, escape_value = render\<rparr>)
        \<in> set (properties Ledger)
   \<and> ''Id'' \<notin> name ` snd ` set (navigation_properties Product)
   \<and> field_values (odata (fst (EntityBase_new Product (Some product_data)))) ''Id'' = Some (PInt 7)
   \<and> product_data ''ProductName'' = None
   \<and> field_values (odata (fst (EntityBase_new Product (Some product_data)))) ''ProductName'' =
        Some PNone
   \<and> ''Orders'' \<in> name ` snd ` set (navigation_properties Ledger)
   \<and> field_values (odata (fst (EntityBase_new Ledger (Some [''Orders'' \<mapsto> PInt 2])))) ''Orders'' =
        Some PNone
   \<and> field_values (odata (fst (EntityBase_new Product (Some product_data)))) ''Orders'' = None
   \<and> field_values (odata (fst (EntityBase_new Product (Some product_data)))) ''Supplier'' = None"
  using
    hydration_reads_stripped_mapping
      [of "''id''" "\<lparr>name = ''Id'', primary_key = True, escape_value = render\<rparr>" Product product_data]
    hydration_reads_stripped_mapping
      [of "''name''" "\<lparr>name = ''ProductName'', primary_key = False, escape_value = render\<rparr>"
        Product product_data]
    hydration_reads_stripped_mapping
      [of "''order_count''" "\<lparr>name = ''Orders'', primary_key = False, escape_value = render\<rparr>"
        Ledger "[''Orders'' \<mapsto> PInt 2]"]
  by (simp add: example_defs)

text \<open>
  Counterexample to C2 as stated. The class \<^verbatim>\<open>Ledger\<close> declares a value property and a navigation property under the wire
  name \<^verbatim>\<open>Orders\<close>: from \<^verbatim>\<open>{'Orders': [1, 2]}\<close> the declared field is stored as
  \<^verbatim>\<open>None\<close>, which is not the raw mapping's value for that field.
\<close>

theorem shared_wire_name_counterexample:
  "(''order_count'', \<lparr>name = ''Orders'', primary_key = False, escape_value = render\<rparr>)
        \<in> set (properties Ledger)
   \<and> dict_get [''Orders'' \<mapsto> PList [PInt 1, PInt 2]] ''Orders'' = PList [PInt 1, PInt 2]
   \<and> field_values
        (odata (fst (EntityBase_new Ledger (Some [''Orders'' \<mapsto> PList [PInt 1, PInt 2]]))))
        ''Orders'' = Some PNone"
  by (simp add: example_defs)



text \<open>
  C4. Construction from a raw-data mapping leaves the dirty set empty, whatever the class
  declares and whatever the mapping holds.
\<close>

theorem hydration_marks_nothing_dirty:
  "dirty (odata (fst (EntityBase_new c (Some raw_data)))) = {}"
  by (simp add: new_from_data from_data_loop_dirty expand_loop_dirty EntityState_init_def)

theorem hydration_marks_nothing_dirty_witness:
  "dirty (odata (fst (EntityBase_new Product (Some product_data)))) = {}
   \<and> field_values (odata (fst (EntityBase_new Product (Some product_data)))) ''Id'' = Some (PInt 7)"
  using hydration_marks_nothing_dirty [of Product product_data]
  by (simp add: example_defs)

text \<open>
  C5. Construction without raw data yields an instance whose every declared value property reads
  as \<^verbatim>\<open>None\<close>, whose navigation cache is empty and whose dirty set is empty.
\<close>

theorem construction_without_data:
  "(\<forall>(prop_name, prop) \<in> set (properties c).
      EntityState_getitem (odata (fst (EntityBase_new c None))) (name prop) = Inr PNone)
   \<and> nav_cache (odata (fst (EntityBase_new c None))) = Map.empty
   \<and> dirty (odata (fst (EntityBase_new c None))) = {}"
proof -
  have "EntityState_getitem (odata (fst (EntityBase_new c None))) (name p) = Inr PNone"
    if "(n, p) \<in> set (properties c)" for n p
    using wire_name_declared [OF that]
    by (simp add: EntityState_getitem_def new_no_data_values)
  moreover have "nav_cache (odata (fst (EntityBase_new c None))) = Map.empty"
    by (simp add: new_no_data none_loop_cache EntityState_init_def)
  moreover have "dirty (odata (fst (EntityBase_new c None))) = {}"
    by (simp add: new_no_data none_loop_dirty EntityState_init_def)
  ultimately show ?thesis by blast
qed

theorem construction_without_data_witness:
  "set (properties Product) =
     {(''id'', \<lparr>name = ''Id'', primary_key = True, escape_value = render\<rparr>),
      (''name'', \<lparr>name = ''ProductName'', primary_key = False, escape_value = render\<rparr>)}
   \<and> EntityState_getitem (odata (fst (EntityBase_new Product None))) ''Id'' = Inr PNone
   \<and> EntityState_getitem (odata (fst (EntityBase_new Product None))) ''ProductName'' = Inr PNone
   \<and> nav_cache (odata (fst (EntityBase_new Product None))) = Map.empty
   \<and> dirty (odata (fst (EntityBase_new Product None))) = {}"
  using construction_without_data [of Product]
  by (simp add: example_defs)

text \<open>
  C10. Construction from a raw-data mapping changes the caller's mapping: afterwards it holds no
  key that is the wire name of a declared navigation property, and every other key holds what it
  held before.
\<close>

theorem new_pops_navigation_keys:
  "snd (EntityBase_new c (Some raw_data)) =
     Some (\<lambda>k. if k \<in> name ` snd ` set (navigation_properties c) then None else raw_data k)"
  by (simp add: new_from_data expand_loop_raw_fun)

theorem new_pops_navigation_keys_witness:
  "snd (EntityBase_new Product (Some product_data)) =
     Some [''Id'' \<mapsto> PInt 7, ''Extra'' \<mapsto> PStr ''x'']"
  using new_pops_navigation_keys [of Product product_data]
  by (auto simp: example_defs fun_eq_iff)

section \<open>Equality and the debug representation\<close>

text \<open>
  C1, as amended. \<^verbatim>\<open>a == b\<close> is true exactly when \<^verbatim>\<open>b\<close> is an entity instance, the
  primary-key values of both are truthy (not \<^verbatim>\<open>None\<close> and not a falsy value such as
  \<^verbatim>\<open>0\<close> or the empty string) and the two values are equal. So an instance whose key is
  \<^verbatim>\<open>None\<close> or falsy equals nothing, and a comparison with a value that is no entity is
  false; the comparison is total, it raises nothing.
\<close>

theorem eq_iff_truthy_equal_keys:
  "EntityBase_eq a b \<longleftrightarrow>
     (\<exists>e. b = Instance e \<and> truthy (EntityState_id a) \<and> truthy (EntityState_id e) \<and>
          py_eq (EntityState_id a) (EntityState_id e))"
  by (cases b) (auto simp: EntityBase_eq_def Let_def dest: py_eq_truthy)

theorem eq_iff_truthy_equal_keys_witness:
  "EntityBase_eq
     (fst (EntityBase_new Product (Some [''Id'' \<mapsto> PInt 5, ''ProductName'' \<mapsto> PStr ''a''])))
     (Instance (fst (EntityBase_new Product (Some [''Id'' \<mapsto> PInt 5, ''ProductName'' \<mapsto> PStr ''b'']))))
   \<and> \<not> EntityBase_eq
         (fst (EntityBase_new Product (Some [''Id'' \<mapsto> PInt 5])))
         (Instance (fst (EntityBase_new Product (Some [''Id'' \<mapsto> PInt 6]))))
   \<and> \<not> EntityBase_eq (fst (EntityBase_new Product (Some [''Id'' \<mapsto> PInt 5]))) (Value (PInt 5))"
  using
    eq_iff_truthy_equal_keys
      [of "fst (EntityBase_new Product (Some [''Id'' \<mapsto> PInt 5, ''ProductName'' \<mapsto> PStr ''a'']))"
        "Instance (fst (EntityBase_new Product
           (Some [''Id'' \<mapsto> PInt 5, ''ProductName'' \<mapsto> PStr ''b''])))"]
    eq_iff_truthy_equal_keys
      [of "fst (EntityBase_new Product (Some [''Id'' \<mapsto> PInt 5]))"
        "Instance (fst (EntityBase_new Product (Some [''Id'' \<mapsto> PInt 6])))"]
    eq_iff_truthy_equal_keys
      [of "fst (EntityBase_new Product (Some [''Id'' \<mapsto> PInt 5]))" "Value (PInt 5)"]
  by (simp add: example_defs)

theorem eq_zero_keys_counterexample:
  "EntityState_id (fst (EntityBase_new Product (Some [''Id'' \<mapsto> PInt 0]))) = PInt 0
   \<and> PInt 0 \<noteq> PNone
   \<and> py_eq (PInt 0) (PInt 0)
   \<and> \<not> EntityBase_eq
         (fst (EntityBase_new Product (Some [''Id'' \<mapsto> PInt 0])))
         (Instance (fst (EntityBase_new Product (Some [''Id'' \<mapsto> PInt 0]))))"
  by (simp add: example_defs EntityBase_eq_def)

text \<open>
  C8. An instance without a key is not equal to itself: when its class declares no primary key,
  or when the value of its primary key is \<^verbatim>\<open>None\<close>, \<^verbatim>\<open>e == e\<close> is false. There is no
  test for object identity before the keys are compared.
\<close>

theorem eq_not_reflexive_unkeyed:
  "(primary_key_property (cls e) = None \<longrightarrow> \<not> EntityBase_eq e (Instance e))
   \<and> (\<forall>n p. primary_key_property (cls e) = Some (n, p) \<and>
              dict_get (field_values (odata e)) (name p) = PNone \<longrightarrow>
            \<not> EntityBase_eq e (Instance e))"
  by (auto simp: EntityBase_eq_def EntityState_id_def)

theorem eq_not_reflexive_unkeyed_witness:
  "primary_key_property (cls (fst (EntityBase_new Note (Some [''Text'' \<mapsto> PStr ''x''])))) = None
   \<and> \<not> EntityBase_eq
         (fst (EntityBase_new Note (Some [''Text'' \<mapsto> PStr ''x''])))
         (Instance (fst (EntityBase_new Note (Some [''Text'' \<mapsto> PStr ''x'']))))
   \<and> primary_key_property (cls (fst (EntityBase_new Product None))) =
        Some (''id'', \<lparr>name = ''Id'', primary_key = True, escape_value = render\<rparr>)
   \<and> dict_get (field_values (odata (fst (EntityBase_new Product None)))) ''Id'' = PNone
   \<and> \<not> EntityBase_eq (fst (EntityBase_new Product None))
         (Instance (fst (EntityBase_new Product None)))"
  using
    eq_not_reflexive_unkeyed [of "fst (EntityBase_new Note (Some [''Text'' \<mapsto> PStr ''x'']))"]
    eq_not_reflexive_unkeyed [of "fst (EntityBase_new Product None)"]
  by (simp add: example_defs)

text \<open>
  C9. A primary-key value that is falsy, in particular one that is not \<^verbatim>\<open>None\<close> such as the
  integer \<^verbatim>\<open>0\<close> or the empty string, counts as no key: the instance is equal to no value
  at all, not even to an instance with the same key value, and its debug representation has no
  key segment.
\<close>

theorem falsy_key_is_no_key:
  assumes "primary_key_property (cls e) = Some (n, p)"
    and "field_values (odata e) (name p) = Some v"
    and "\<not> truthy v"
  shows "\<not> EntityBase_eq e other
       \<and> EntityBase_repr e = Inr (''<Entity('' @ class_name (cls e) @ '')>'')"
  using assms
  by (cases other)
    (simp_all add: EntityBase_eq_def EntityState_id_def dict_get_def EntityBase_repr_def
      EntityState_getitem_def)

theorem falsy_key_is_no_key_witness:
  "primary_key_property (cls (fst (EntityBase_new Product (Some [''Id'' \<mapsto> PInt 0])))) =
     Some (''id'', \<lparr>name = ''Id'', primary_key = True, escape_value = render\<rparr>)
   \<and> field_values (odata (fst (EntityBase_new Product (Some [''Id'' \<mapsto> PInt 0])))) ''Id'' =
        Some (PInt 0)
   \<and> PInt 0 \<noteq> PNone \<and> \<not> truthy (PInt 0)
   \<and> \<not> EntityBase_eq
         (fst (EntityBase_new Product (Some [''Id'' \<mapsto> PInt 0])))
         (Instance (fst (EntityBase_new Product (Some [''Id'' \<mapsto> PInt 0]))))
   \<and> EntityBase_repr (fst (EntityBase_new Product (Some [''Id'' \<mapsto> PInt 0]))) =
        Inr ''<Entity(Product)>''
   \<and> field_values (odata (fst (EntityBase_new Product (Some [''Id'' \<mapsto> PStr []])))) ''Id'' =
        Some (PStr [])
   \<and> PStr [] \<noteq> PNone \<and> \<not> truthy (PStr [])
   \<and> EntityBase_repr (fst (EntityBase_new Product (Some [''Id'' \<mapsto> PStr []]))) =
        Inr ''<Entity(Product)>''"
  using
    falsy_key_is_no_key
      [of "fst (EntityBase_new Product (Some [''Id'' \<mapsto> PInt 0]))" "''id''"
        "\<lparr>name = ''Id'', primary_key = True, escape_value = render\<rparr>" "PInt 0"
        "Instance (fst (EntityBase_new Product (Some [''Id'' \<mapsto> PInt 0])))"]
    falsy_key_is_no_key
      [of "fst (EntityBase_new Product (Some [''Id'' \<mapsto> PStr []]))" "''id''"
        "\<lparr>name = ''Id'', primary_key = True, escape_value = render\<rparr>" "PStr []"
        "Value PNone"]
  by (simp add: example_defs)

text \<open>
  C6, as amended. The debug representation is \<^verbatim>\<open><Entity(ClassName:key)>\<close>, in angle
  brackets, with the key as the key property's escape routine renders it, when the class declares
  a primary key and the key's value is truthy; it is \<^verbatim>\<open><Entity(ClassName)>\<close> when the class
  declares no primary key or the key's value is \<^verbatim>\<open>None\<close> or falsy. Every constructed
  instance holds a value under the wire name of its primary key, so one of the cases applies.
\<close>

theorem repr_renders_bracketed:
  "(primary_key_property (cls e) = None \<longrightarrow>
      EntityBase_repr e = Inr (''<Entity('' @ class_name (cls e) @ '')>''))
   \<and> (\<forall>n p v. primary_key_property (cls e) = Some (n, p) \<and>
          field_values (odata e) (name p) = Some v \<longrightarrow>
          EntityBase_repr e =
            Inr (if truthy v
                 then ''<Entity('' @ class_name (cls e) @ '':'' @ escape_value p v @ '')>''
                 else ''<Entity('' @ class_name (cls e) @ '')>''))
   \<and> (\<forall>n p. primary_key_property c = Some (n, p) \<longrightarrow>
          (\<exists>v. field_values (odata (fst (EntityBase_new c from_data))) (name p) = Some v))"
  by (auto simp: EntityBase_repr_def EntityState_getitem_def dest: new_has_key_value)

theorem repr_renders_bracketed_witness:
  "EntityBase_repr (fst (EntityBase_new Product (Some product_data))) =
     Inr ''<Entity(Product:7)>''
   \<and> EntityBase_repr (fst (EntityBase_new Product None)) = Inr ''<Entity(Product)>''
   \<and> EntityBase_repr (fst (EntityBase_new Note (Some [''Text'' \<mapsto> PStr ''x'']))) =
        Inr ''<Entity(Note)>''"
  using
    repr_renders_bracketed
      [of "fst (EntityBase_new Product (Some product_data))" Product "Some product_data"]
    repr_renders_bracketed [of "fst (EntityBase_new Product None)" Product None]
    repr_renders_bracketed
      [of "fst (EntityBase_new Note (Some [''Text'' \<mapsto> PStr ''x'']))" Note None]
  by (simp add: example_defs)

theorem repr_brackets_counterexample:
  "EntityBase_repr (fst (EntityBase_new Product (Some [''Id'' \<mapsto> PInt 7]))) =
     Inr ''<Entity(Product:7)>''
   \<and> EntityBase_repr (fst (EntityBase_new Product (Some [''Id'' \<mapsto> PInt 7]))) \<noteq>
        Inr ''Entity(Product:7)''
   \<and> EntityBase_repr (fst (EntityBase_new Product None)) \<noteq> Inr ''Entity(Product)''
   \<and> field_values (odata (fst (EntityBase_new Product (Some [''Id'' \<mapsto> PInt 0])))) ''Id'' =
        Some (PInt 0)
   \<and> EntityBase_repr (fst (EntityBase_new Product (Some [''Id'' \<mapsto> PInt 0]))) =
        Inr ''<Entity(Product)>''"
  by (simp add: example_defs EntityBase_repr_def)

section \<open>The URL of a class\<close>

lemma urlsplit_service: "urlsplit ''https://svc/'' =
  \<lparr>scheme = Some ''https'', netloc = Some ''svc'', path = ''/'', query = None, fragment = None\<rparr>"
  by (simp add: urlsplit_def Let_def)

lemma urlsplit_Products: "urlsplit ''Products'' =
  \<lparr>scheme = None, netloc = None, path = ''Products'', query = None, fragment = None\<rparr>"
  by (simp add: urlsplit_def Let_def)

lemma urlsplit_Entities: "urlsplit ''Entities'' =
  \<lparr>scheme = None, netloc = None, path = ''Entities'', query = None, fragment = None\<rparr>"
  by (simp add: urlsplit_def Let_def)

lemma urlsplit_empty: "urlsplit [] =
  \<lparr>scheme = None, netloc = None, path = [], query = None, fragment = None\<rparr>"
  by (simp add: urlsplit_def Let_def)

lemma urlsplit_mirror: "urlsplit ''https://mirror/v4/Products'' =
  \<lparr>scheme = Some ''https'', netloc = Some ''mirror'', path = ''/v4/Products'', query = None,
    fragment = None\<rparr>"
  by (simp add: urlsplit_def Let_def)

lemma remove_dot_segments_Products: "remove_dot_segments ''/Products'' = ''/Products''"
  by (simp add: remove_dot_segments_def)

lemma remove_dot_segments_Entities: "remove_dot_segments ''Entities'' = ''Entities''"
  by (simp add: remove_dot_segments_def)

lemma remove_dot_segments_mirror: "remove_dot_segments ''/v4/Products'' = ''/v4/Products''"
  by (simp add: remove_dot_segments_def)

lemma urljoin_service_Products: "urljoin ''https://svc/'' ''Products'' = ''https://svc/Products''"
  by (simp add: urljoin_def urlsplit_service urlsplit_Products resolve_def merge_paths_def
      remove_dot_segments_Products urlunsplit_def)

lemma urljoin_empty_Entities: "urljoin [] ''Entities'' = ''Entities''"
  by (simp add: urljoin_def urlsplit_empty urlsplit_Entities resolve_def merge_paths_def
      remove_dot_segments_Entities urlunsplit_def)

lemma urljoin_absolute:
  assumes "scheme (urlsplit url) \<noteq> None"
  shows "urljoin base url =
    urlunsplit ((urlsplit url)\<lparr>path := remove_dot_segments (path (urlsplit url))\<rparr>)"
proof -
  obtain s where "scheme (urlsplit url) = Some s"
    using assms by auto
  then show ?thesis
    by (cases "urlsplit url") (simp add: urljoin_def resolve_def)
qed

text \<open>
  C7. The URL of an entity class is the join of its two class attributes, the URL base and the
  collection name, and of nothing else, whatever the join function. With the standard
  hierarchical join, base \<^verbatim>\<open>https://svc/\<close> and collection name \<^verbatim>\<open>Products\<close> give
  \<^verbatim>\<open>https://svc/Products\<close>, and a collection name that is absolute, one that has a scheme,
  overrides the base: the URL is the collection name with the dot segments of its path removed,
  and no part of the base is in it.
\<close>

theorem odata_url_joins:
  "EntityBase_odata_url uj c = uj (odata_url_base c) (odata_collection c)
   \<and> (odata_url_base c = ''https://svc/'' \<and> odata_collection c = ''Products'' \<longrightarrow>
        EntityBase_odata_url urljoin c = ''https://svc/Products'')
   \<and> (scheme (urlsplit (odata_collection c)) \<noteq> None \<longrightarrow>
        EntityBase_odata_url urljoin c =
          urlunsplit ((urlsplit (odata_collection c))
            \<lparr>path := remove_dot_segments (path (urlsplit (odata_collection c)))\<rparr>))"
proof -
  have "EntityBase_odata_url uj c = uj (odata_url_base c) (odata_collection c)"
    by (simp add: EntityBase_odata_url_def)
  moreover have "EntityBase_odata_url urljoin c = ''https://svc/Products''"
    if "odata_url_base c = ''https://svc/''" and "odata_collection c = ''Products''"
    unfolding EntityBase_odata_url_def that by (rule urljoin_service_Products)
  moreover have "EntityBase_odata_url urljoin c =
      urlunsplit ((urlsplit (odata_collection c))
        \<lparr>path := remove_dot_segments (path (urlsplit (odata_collection c)))\<rparr>)"
    if "scheme (urlsplit (odata_collection c)) \<noteq> None"
    unfolding EntityBase_odata_url_def using that by (rule urljoin_absolute)
  ultimately show ?thesis by blast
qed

theorem odata_url_joins_witness:
  "odata_url_base Product = ''https://svc/'' \<and> odata_collection Product = ''Products''
   \<and> EntityBase_odata_url urljoin Product = ''https://svc/Products''
   \<and> scheme (urlsplit (odata_collection Mirror)) = Some ''https''
   \<and> EntityBase_odata_url urljoin Mirror = ''https://mirror/v4/Products''
   \<and> EntityBase_odata_url urljoin Note = ''Entities''"
  using odata_url_joins [of urljoin Product] odata_url_joins [of urljoin Mirror]
    odata_url_joins [of urljoin Note]
  by (simp add: EntityBase_odata_url_def Product_def Mirror_def Note_def urlsplit_Products
      urlsplit_Entities urlsplit_mirror remove_dot_segments_mirror urlunsplit_def
      urljoin_empty_Entities)
end
